theory Spec2Isabelle
  imports Main
begin

section \<open>Data model (src/types.ts, src/constants.ts)\<close>

text \<open>
  \<^verbatim>\<open>ConnectionStatus\<close> is the string enum of \<^verbatim>\<open>types.ts\<close>; the optional fields of
  \<^verbatim>\<open>Message\<close> (written \<^verbatim>\<open>field?: T\<close>) are options, \<open>None\<close> standing for
  \<^verbatim>\<open>undefined\<close>. Record fields carry a prefix because HOL already owns \<open>id\<close> and
  \<open>size\<close>. JavaScript numbers that hold byte counts and \<^verbatim>\<open>Date.now()\<close> readings are
  natural numbers.
\<close>

datatype ConnectionStatus =
  OFFLINE | IDLE | INITIALIZING | READY | CONNECTING | CONNECTED | ERROR

datatype sender = Local | Remote | System

datatype msg_kind = KText | KFile

datatype msg_status = Sending | Sent | Delivered

datatype log_type = Info | Success | Warning | Error

record FileMeta =
  fm_name :: string
  fm_size :: nat
  fm_mimeType :: string
  fm_blobUrl :: "string option"

record ReplyContext =
  rc_id :: string
  rc_sender :: sender
  rc_content :: string

record Message =
  m_id :: string
  m_sender :: sender
  m_senderId :: "string option"
  m_content :: string
  m_timestamp :: nat
  m_type :: msg_kind
  m_file :: "FileMeta option"
  m_status :: "msg_status option"
  m_replyTo :: "ReplyContext option"
  m_isEdited :: "bool option"
  m_isDeleted :: "bool option"

record LogEntry =
  l_id :: string
  l_message :: string
  l_timestamp :: nat
  l_type :: log_type

definition MSG_PEER_INIT :: string where
  "MSG_PEER_INIT = ''Generating cryptographic identity...''"

definition MSG_CONNECTED :: string where
  "MSG_CONNECTED = ''Uplink established. Channel secure.''"

definition MSG_DISCONNECTED :: string where
  "MSG_DISCONNECTED = ''Carrier signal lost.''"

section \<open>Transport objects and wire payloads\<close>

text \<open>
  The PeerJS objects are outside the repository. A \<^verbatim>\<open>Peer\<close> is known by the identity
  it was constructed with, a \<^verbatim>\<open>DataConnection\<close> by its \<^verbatim>\<open>peer\<close> field and an
  object handle. What the application does to them (\<^verbatim>\<open>send\<close>, \<^verbatim>\<open>close\<close>,
  \<^verbatim>\<open>destroy\<close>) is recorded in the state; what they do to the application (their
  callbacks) arrives as events. Two calls run application callbacks before they return,
  and the model runs them there: \<^verbatim>\<open>close()\<close> on a connection that is open emits its
  \<^verbatim>\<open>'close'\<close> event, and \<^verbatim>\<open>destroy()\<close> on a peer calls \<^verbatim>\<open>close()\<close> on each of its connections.
  A connection that never opened emits nothing when it is closed. The state therefore
  keeps the list of connections that have opened and not yet closed; they all belong to
  the one registered peer, since a peer is destroyed before the next is created.
\<close>

datatype peer = Peer (peer_ident: string)

datatype conn = Conn (conn_peer: string) (conn_handle: nat)

record file_obj =
  f_name :: string
  f_size :: nat
  f_type :: string
  f_bytes :: "nat list"

text \<open>
  The payload handed to \<^verbatim>\<open>conn.on('data')\<close> has type \<^verbatim>\<open>any\<close>. The constructors are
  the shapes the handler tells apart by \<^verbatim>\<open>data.type\<close>; \<open>EOther\<close> is a truthy value of
  any other type tag and \<open>EFalsy\<close> a value failing \<^verbatim>\<open>if (data)\<close>.
\<close>

datatype envelope =
    ETyping bool
  | EAck string
  | EEdit string string
  | EDelete string
  | EText string "ReplyContext option"
  | EFile string file_obj string nat string
  | EOther
  | EFalsy

text \<open>
  A stamp is what one call of \<^verbatim>\<open>Math.random().toString(36).substring(7)\<close> and one call
  of \<^verbatim>\<open>Date.now()\<close> return: both are inputs of the model.
\<close>

type_synonym stamp = "string \<times> nat"

section \<open>Application state (component \<^verbatim>\<open>App\<close>, src/App.tsx)\<close>

text \<open>
  The \<^verbatim>\<open>useState\<close> cells and \<^verbatim>\<open>useRef\<close> cells of \<^verbatim>\<open>App\<close>, followed by the effects on
  the outside world: the identity key of \<^verbatim>\<open>localStorage\<close>, the payloads passed to
  \<^verbatim>\<open>conn.send\<close> with the connection they were sent on, the connections passed to
  \<^verbatim>\<open>close()\<close>, the peers passed to \<^verbatim>\<open>destroy()\<close>, the peer captured by the clean-up
  closure of the registration effect, and the transport's open connections. \<^verbatim>\<open>statusRef\<close> is copied from \<^verbatim>\<open>status\<close> after every
  render (lines 46-48), so between two events both hold the same value and the model
  keeps one field.
\<close>

record app =
  isSystemOn :: bool
  status :: ConnectionStatus
  isRemoteTyping :: bool
  desiredId :: string
  peerId :: string
  messages :: "Message list"
  logs :: "LogEntry list"
  peerRef :: "peer option"
  connRef :: "conn option"
  storage :: "string option"
  outbox :: "(conn \<times> envelope) list"
  closedConns :: "conn list"
  destroyedPeers :: "peer list"
  effectPeer :: "peer option"
  openConns :: "conn list"

subsection \<open>Logging and system messages (lines 73-100)\<close>

definition addLog :: "stamp \<Rightarrow> string \<Rightarrow> log_type \<Rightarrow> app \<Rightarrow> app" where
  "addLog st message ty s =
     s\<lparr>logs := logs s @
        [\<lparr>l_id = fst st, l_message = message, l_timestamp = snd st, l_type = ty\<rparr>]\<rparr>"

definition addSystemMessage :: "stamp \<Rightarrow> string \<Rightarrow> app \<Rightarrow> app" where
  "addSystemMessage st content s =
     s\<lparr>messages := messages s @
        [\<lparr>m_id = fst st, m_sender = System, m_senderId = None, m_content = content,
          m_timestamp = snd st, m_type = KText, m_file = None, m_status = None,
          m_replyTo = None, m_isEdited = None, m_isDeleted = None\<rparr>]\<rparr>"

definition clearLogs :: "stamp \<Rightarrow> app \<Rightarrow> app" where
  "clearLogs st s = addLog st ''System logs purged.'' Warning (s\<lparr>logs := []\<rparr>)"

definition clearChat :: "stamp \<Rightarrow> app \<Rightarrow> app" where
  "clearChat st s = addLog st ''Message buffer cleared.'' Warning (s\<lparr>messages := []\<rparr>)"

subsection \<open>The mutations of the message log\<close>

text \<open>The three \<^verbatim>\<open>prev.map(msg => msg.id === x ? {...msg, ...} : msg)\<close> updaters.\<close>

definition markDelivered :: "string \<Rightarrow> Message \<Rightarrow> Message" where
  "markDelivered messageId msg =
     (if m_id msg = messageId then msg\<lparr>m_status := Some Delivered\<rparr> else msg)"

definition markEdited :: "string \<Rightarrow> string \<Rightarrow> Message \<Rightarrow> Message" where
  "markEdited messageId content msg =
     (if m_id msg = messageId
      then msg\<lparr>m_content := content, m_isEdited := Some True\<rparr> else msg)"

definition markDeleted :: "string \<Rightarrow> Message \<Rightarrow> Message" where
  "markDeleted messageId msg =
     (if m_id msg = messageId then msg\<lparr>m_isDeleted := Some True\<rparr> else msg)"

subsection \<open>\<^verbatim>\<open>setupConnection\<close> and the callbacks it installs (lines 102-196)\<close>

definition setupConnection :: "conn \<Rightarrow> app \<Rightarrow> app" where
  "setupConnection c s = s\<lparr>connRef := Some c\<rparr>"

definition conn_on_open :: "conn \<Rightarrow> stamp \<Rightarrow> stamp \<Rightarrow> app \<Rightarrow> app" where
  "conn_on_open c ls ms s =
     addSystemMessage ms (''Encrypted connection established with '' @ conn_peer c)
       (addLog ls MSG_CONNECTED Success (s\<lparr>status := CONNECTED\<rparr>))"

text \<open>
  The data callback. \<open>ms\<close> stamps the appended message, \<open>ls\<close> the log entry, \<open>url\<close>
  is what \<^verbatim>\<open>URL.createObjectURL\<close> returns. The acknowledgement is sent on the
  connection the callback belongs to, not on \<^verbatim>\<open>connRef.current\<close>.
\<close>

fun conn_on_data :: "conn \<Rightarrow> envelope \<Rightarrow> stamp \<Rightarrow> stamp \<Rightarrow> string \<Rightarrow> app \<Rightarrow> app" where
  "conn_on_data c EFalsy ms ls url s = s"
| "conn_on_data c (ETyping b) ms ls url s = s\<lparr>isRemoteTyping := b\<rparr>"
| "conn_on_data c (EAck messageId) ms ls url s =
     s\<lparr>messages := map (markDelivered messageId) (messages s)\<rparr>"
| "conn_on_data c (EEdit messageId content) ms ls url s =
     s\<lparr>messages := map (markEdited messageId content) (messages s)\<rparr>"
| "conn_on_data c (EDelete messageId) ms ls url s =
     s\<lparr>messages := map (markDeleted messageId) (messages s)\<rparr>"
| "conn_on_data c (EText content replyTo) ms ls url s =
     s\<lparr>isRemoteTyping := False,
       messages := messages s @
        [\<lparr>m_id = fst ms, m_sender = Remote, m_senderId = Some (conn_peer c),
          m_content = content, m_timestamp = snd ms, m_type = KText, m_file = None,
          m_status = None, m_replyTo = replyTo, m_isEdited = None,
          m_isDeleted = None\<rparr>]\<rparr>"
| "conn_on_data c (EFile fid file name sz mimeType) ms ls url s =
     (let s1 = s\<lparr>isRemoteTyping := False,
                 messages := messages s @
                  [\<lparr>m_id = fst ms, m_sender = Remote, m_senderId = Some (conn_peer c),
                    m_content = ''Received file: '' @ name, m_timestamp = snd ms,
                    m_type = KFile,
                    m_file = Some \<lparr>fm_name = name, fm_size = sz, fm_mimeType = mimeType,
                                   fm_blobUrl = Some url\<rparr>,
                    m_status = None, m_replyTo = None, m_isEdited = None,
                    m_isDeleted = None\<rparr>]\<rparr>;
          s2 = addLog ls (''Received file packet: '' @ name) Success s1
      in s2\<lparr>outbox := outbox s2 @ [(c, EAck fid)]\<rparr>)"
| "conn_on_data c EOther ms ls url s = s"

definition conn_on_close :: "conn \<Rightarrow> stamp \<Rightarrow> stamp \<Rightarrow> app \<Rightarrow> app" where
  "conn_on_close c ls ms s =
     addSystemMessage ms ''Remote peer terminated connection.''
       (addLog ls MSG_DISCONNECTED Warning
         (s\<lparr>status := READY, connRef := None, isRemoteTyping := False\<rparr>))"

definition conn_on_error :: "conn \<Rightarrow> string \<Rightarrow> stamp \<Rightarrow> app \<Rightarrow> app" where
  "conn_on_error c errMessage ls s =
     (addLog ls (''Connection error: '' @ errMessage) Error s)
       \<lparr>status := READY, isRemoteTyping := False\<rparr>"

subsection \<open>Calls into the transport that call back\<close>

text \<open>
  A generator \<open>g\<close> supplies the stamps of the callbacks run inside one call: the
  \<open>'close'\<close> callback of the first connection closed takes \<open>g 0\<close> for its log entry and
  \<open>g 1\<close> for its system message, the next \<open>g 2\<close> and \<open>g 3\<close>, and so on.
\<close>

fun fire_close :: "conn list \<Rightarrow> (nat \<Rightarrow> stamp) \<Rightarrow> nat \<Rightarrow> app \<Rightarrow> app" where
  "fire_close [] g k s = s"
| "fire_close (c # cs) g k s =
     fire_close cs g (Suc (Suc k)) (conn_on_close c (g k) (g (Suc k)) s)"

text \<open>\<^verbatim>\<open>peer.destroy()\<close>: every open connection is closed and its \<^verbatim>\<open>'close'\<close> callback runs.\<close>

definition peer_destroy :: "peer \<Rightarrow> (nat \<Rightarrow> stamp) \<Rightarrow> app \<Rightarrow> app" where
  "peer_destroy p g s =
     (fire_close (openConns s) g 0 (s\<lparr>openConns := []\<rparr>))
       \<lparr>destroyedPeers := destroyedPeers s @ [p]\<rparr>"

text \<open>
  \<^verbatim>\<open>conn.close()\<close> on a connection set up by \<^verbatim>\<open>setupConnection\<close>: the \<^verbatim>\<open>'close'\<close> callback
  runs when the connection is open.
\<close>

definition conn_close :: "conn \<Rightarrow> stamp \<Rightarrow> stamp \<Rightarrow> app \<Rightarrow> app" where
  "conn_close c cl cm s =
     (let s1 = s\<lparr>closedConns := closedConns s @ [c]\<rparr>
      in if c \<in> set (openConns s)
         then conn_on_close c cl cm (s1\<lparr>openConns := removeAll c (openConns s)\<rparr>)
         else s1)"

subsection \<open>\<^verbatim>\<open>connectToPeer\<close> (lines 198-219)\<close>

text \<open>
  \<^verbatim>\<open>peerRef.current.connect(targetId)\<close> either returns a connection object whose
  \<^verbatim>\<open>peer\<close> is the target, or throws; which of the two happens is the transport's choice.
\<close>

datatype connect_result = Returns nat | Throws string

definition connectToPeer ::
  "string \<Rightarrow> connect_result \<Rightarrow> stamp \<Rightarrow> stamp \<Rightarrow> app \<Rightarrow> app" where
  "connectToPeer targetId res ls ls' s =
     (case peerRef s of
        None \<Rightarrow> s
      | Some p \<Rightarrow>
          if status s = CONNECTED
          then addLog ls ''Already connected. Terminate current link first.'' Warning s
          else if targetId = peerId s
          then addLog ls ''Cannot connect to self. Targeting external node required.'' Error s
          else
            (let s1 = addLog ls (''Initiating handshake with '' @ targetId @ ''...'') Info s;
                 s2 = s1\<lparr>status := CONNECTING\<rparr>
             in case res of
                  Returns h \<Rightarrow> setupConnection (Conn targetId h) s2
                | Throws err \<Rightarrow>
                    (addLog ls' (''Handshake failed: '' @ err) Error s2)\<lparr>status := READY\<rparr>))"

subsection \<open>Sending (lines 322-406)\<close>

definition sendMessage ::
  "string \<Rightarrow> ReplyContext option \<Rightarrow> stamp \<Rightarrow> stamp \<Rightarrow> app \<Rightarrow> app" where
  "sendMessage content replyTo ls ms s =
     (case connRef s of
        None \<Rightarrow> addLog ls ''Cannot send: No active uplink.'' Error s
      | Some c \<Rightarrow>
          if status s \<noteq> CONNECTED
          then addLog ls ''Cannot send: No active uplink.'' Error s
          else s\<lparr>outbox := outbox s @ [(c, EText content replyTo)],
                 messages := messages s @
                  [\<lparr>m_id = fst ms, m_sender = Local, m_senderId = Some (peerId s),
                    m_content = content, m_timestamp = snd ms, m_type = KText,
                    m_file = None, m_status = Some Sent, m_replyTo = replyTo,
                    m_isEdited = None, m_isDeleted = None\<rparr>]\<rparr>)"

definition handleEditMessage :: "string \<Rightarrow> string \<Rightarrow> app \<Rightarrow> app" where
  "handleEditMessage i newContent s =
     (case connRef s of
        None \<Rightarrow> s
      | Some c \<Rightarrow>
          if status s \<noteq> CONNECTED then s
          else s\<lparr>outbox := outbox s @ [(c, EEdit i newContent)],
                 messages := map (markEdited i newContent) (messages s)\<rparr>)"

definition handleDeleteMessage :: "string \<Rightarrow> app \<Rightarrow> app" where
  "handleDeleteMessage i s =
     (case connRef s of
        None \<Rightarrow> s
      | Some c \<Rightarrow>
          if status s \<noteq> CONNECTED then s
          else s\<lparr>outbox := outbox s @ [(c, EDelete i)],
                 messages := map (markDeleted i) (messages s)\<rparr>)"

text \<open>
  \<^verbatim>\<open>(file.size / 1024).toFixed(1)\<close>: a byte count divided by a power of two is exact in
  binary floating point, and \<^verbatim>\<open>toFixed\<close> rounds the exact value to the nearest tenth,
  ties upward; so the digits are those of \<open>(10 * size + 512) div 1024\<close>.
\<close>

fun decimal :: "nat \<Rightarrow> string" where
  "decimal n =
     (if n < 10 then [''0123456789'' ! n]
      else decimal (n div 10) @ [''0123456789'' ! (n mod 10)])"

declare decimal.simps [simp del]

definition toFixed1_KB :: "nat \<Rightarrow> string" where
  "toFixed1_KB sz =
     (let q = (10 * sz + 512) div 1024
      in decimal (q div 10) @ ''.'' @ decimal (q mod 10))"

text \<open>\<open>ms\<close> supplies \<^verbatim>\<open>msgId\<close> and the timestamp of the appended message.\<close>

definition sendFile :: "file_obj \<Rightarrow> stamp \<Rightarrow> stamp \<Rightarrow> string \<Rightarrow> app \<Rightarrow> app" where
  "sendFile file ls ms url s =
     (case connRef s of
        None \<Rightarrow> addLog ls ''Cannot send: No active uplink.'' Error s
      | Some c \<Rightarrow>
          if status s \<noteq> CONNECTED
          then addLog ls ''Cannot send: No active uplink.'' Error s
          else
            (let s1 = addLog ls (''Initiating file transfer: '' @ f_name file @ '' ('' @
                                  toFixed1_KB (f_size file) @ ''KB)...'') Info s;
                 msgId = fst ms;
                 s2 = s1\<lparr>outbox := outbox s1 @
                          [(c, EFile msgId file (f_name file) (f_size file) (f_type file))]\<rparr>
             in s2\<lparr>messages := messages s2 @
                  [\<lparr>m_id = msgId, m_sender = Local, m_senderId = Some (peerId s),
                    m_content = ''Sending file: '' @ f_name file, m_timestamp = snd ms,
                    m_type = KFile,
                    m_file = Some \<lparr>fm_name = f_name file, fm_size = f_size file,
                                   fm_mimeType = f_type file, fm_blobUrl = Some url\<rparr>,
                    m_status = Some Sending, m_replyTo = None, m_isEdited = None,
                    m_isDeleted = None\<rparr>]\<rparr>))"

text \<open>\<open>cl\<close> and \<open>cm\<close> stamp the \<^verbatim>\<open>'close'\<close> callback that \<^verbatim>\<open>connRef.current.close()\<close> may run.\<close>

definition disconnect :: "stamp \<Rightarrow> stamp \<Rightarrow> stamp \<Rightarrow> app \<Rightarrow> app" where
  "disconnect cl cm ls s =
     (case connRef s of
        None \<Rightarrow> s
      | Some c \<Rightarrow>
          addLog ls ''Manual disconnect initiated.'' Info
            ((conn_close c cl cm s)
               \<lparr>connRef := None, status := READY, isRemoteTyping := False\<rparr>))"

definition handleTyping :: "bool \<Rightarrow> app \<Rightarrow> app" where
  "handleTyping isTyping s =
     (case connRef s of
        None \<Rightarrow> s
      | Some c \<Rightarrow>
          if status s = CONNECTED then s\<lparr>outbox := outbox s @ [(c, ETyping isTyping)]\<rparr>
          else s)"

subsection \<open>Identity, power and the registration effect (lines 221-304)\<close>

definition handleIdentityChange :: "string \<Rightarrow> stamp \<Rightarrow> app \<Rightarrow> app" where
  "handleIdentityChange newId ls s =
     (if newId = peerId s then s
      else (addLog ls (''Re-initializing node with new identity: '' @ newId) Info s)
             \<lparr>storage := Some newId, desiredId := newId\<rparr>)"

text \<open>\<open>g\<close> stamps the callbacks run inside \<^verbatim>\<open>peerRef.current.destroy()\<close>.\<close>

definition togglePower :: "stamp \<Rightarrow> stamp \<Rightarrow> (nat \<Rightarrow> stamp) \<Rightarrow> app \<Rightarrow> app" where
  "togglePower ls ms g s =
     (if isSystemOn s then
        (let s1 = s\<lparr>isSystemOn := False, status := OFFLINE, peerId := []\<rparr>;
             s2 = (case peerRef s1 of
                     None \<Rightarrow> s1
                   | Some p \<Rightarrow> (peer_destroy p g s1)\<lparr>peerRef := None\<rparr>);
             s3 = s2\<lparr>connRef := None\<rparr>
         in addSystemMessage ms ''System offline.''
              (addLog ls ''SYSTEM SHUTDOWN SEQUENCE INITIATED...'' Warning s3))
      else addLog ls ''SYSTEM BOOT SEQUENCE INITIATED...'' Success (s\<lparr>isSystemOn := True\<rparr>))"

text \<open>
  The effect of lines 257-304, whose dependencies that can change are \<^verbatim>\<open>desiredId\<close> and
  \<^verbatim>\<open>isSystemOn\<close>. React runs the clean-up closure returned by the previous run, if that
  run returned one, and then the body again.
\<close>

definition peer_effect_cleanup :: "(nat \<Rightarrow> stamp) \<Rightarrow> app \<Rightarrow> app" where
  "peer_effect_cleanup g s =
     (case effectPeer s of
        None \<Rightarrow> s
      | Some p \<Rightarrow> (peer_destroy p g s)\<lparr>effectPeer := None\<rparr>)"

definition peer_effect :: "(nat \<Rightarrow> stamp) \<Rightarrow> stamp \<Rightarrow> app \<Rightarrow> app" where
  "peer_effect g ls s =
     (if \<not> isSystemOn s then s
      else
        (let s1 = (case peerRef s of
                     None \<Rightarrow> s
                   | Some p \<Rightarrow> peer_destroy p g s);
             s2 = s1\<lparr>status := INITIALIZING, peerId := [], isRemoteTyping := False\<rparr>;
             s3 = addLog ls MSG_PEER_INIT Info s2;
             p = Peer (desiredId s)
         in s3\<lparr>peerRef := Some p, effectPeer := Some p\<rparr>))"

definition rerun_peer_effect ::
  "(nat \<Rightarrow> stamp) \<Rightarrow> (nat \<Rightarrow> stamp) \<Rightarrow> stamp \<Rightarrow> app \<Rightarrow> app" where
  "rerun_peer_effect g g' ls s = peer_effect g' ls (peer_effect_cleanup g s)"

text \<open>The callbacks the effect installs on the peer it created.\<close>

definition peer_on_open :: "string \<Rightarrow> stamp \<Rightarrow> app \<Rightarrow> app" where
  "peer_on_open i ls s =
     addLog ls (''Identity confirmed: '' @ i) Success (s\<lparr>peerId := i, status := READY\<rparr>)"

definition peer_on_connection :: "conn \<Rightarrow> stamp \<Rightarrow> app \<Rightarrow> app" where
  "peer_on_connection c ls s =
     (case connRef s of
        Some held \<Rightarrow>
          addLog ls ''Rejected concurrent connection attempt'' Warning
            (s\<lparr>closedConns := closedConns s @ [c]\<rparr>)
      | None \<Rightarrow>
          addLog ls (''Incoming handshake from: '' @ conn_peer c) Warning
            (setupConnection c s))"

text \<open>
  The offer refused above is a connection that has not opened and on which no callback
  was installed, so its \<^verbatim>\<open>close()\<close> runs nothing of the application.
\<close>

text \<open>
  \<^verbatim>\<open>err.type\<close> and \<^verbatim>\<open>err.message\<close> of the transport's error object; an absent or empty
  message is falsy. The identity in the collision text is the one the peer was created
  with (the \<^verbatim>\<open>desiredId\<close> of the closure).
\<close>

record peer_err =
  pe_type :: string
  pe_message :: "string option"

definition peer_on_error :: "peer \<Rightarrow> peer_err \<Rightarrow> stamp \<Rightarrow> app \<Rightarrow> app" where
  "peer_on_error p err ls s =
     (let s1 =
        (if pe_type err = ''unavailable-id''
         then addLog ls (''ID Collision: '' @ [CHR 0x22] @ peer_ident p @ [CHR 0x22] @
                         '' is already in use.'') Error s
         else addLog ls (''PROTOCOL ERROR: '' @
                (case pe_message err of
                   None \<Rightarrow> ''Unknown error''
                 | Some m \<Rightarrow> if m = [] then ''Unknown error'' else m)) Error s)
      in s1\<lparr>status := ERROR\<rparr>)"

subsection \<open>Initial state and the event loop\<close>

text \<open>
  The state of the first render: \<open>stored\<close> is what \<^verbatim>\<open>localStorage\<close> holds under the
  identity key and \<open>newId\<close> what \<^verbatim>\<open>generateShortId()\<close> would return.
\<close>

definition initial :: "string option \<Rightarrow> string \<Rightarrow> app" where
  "initial stored newId =
     (let kept = (case stored of None \<Rightarrow> None | Some x \<Rightarrow> if x = [] then None else Some x)
      in \<lparr>isSystemOn = True, status = INITIALIZING, isRemoteTyping = False,
          desiredId = (case kept of None \<Rightarrow> newId | Some x \<Rightarrow> x), peerId = [],
          messages = [], logs = [], peerRef = None, connRef = None,
          storage = (case kept of None \<Rightarrow> Some newId | Some x \<Rightarrow> stored),
          outbox = [], closedConns = [], destroyedPeers = [], effectPeer = None,
          openConns = []\<rparr>)"

text \<open>
  Everything that can happen to the component: a user action or a transport callback,
  each processed to completion before the next (the component is single-threaded).
  An event carries the values the handler obtains from its environment. After
  \<^verbatim>\<open>handleIdentityChange\<close> and \<^verbatim>\<open>togglePower\<close> the registration effect runs again when one
  of its dependencies has changed. The transport's \<^verbatim>\<open>'open'\<close> and \<^verbatim>\<open>'close'\<close> events also
  enter and leave the list of open connections. The link-parameter effect of lines 306-320 writes
  one log entry and later calls \<^verbatim>\<open>connectToPeer\<close> from a timer: the call is the event
  \<open>ConnectToPeer\<close>, the log entry is left out. The fullscreen and log-panel cells do not
  meet the cells modelled here.
\<close>

datatype event =
    Mount "nat \<Rightarrow> stamp" stamp
  | ConnOpen conn stamp stamp
  | ConnData conn envelope stamp stamp string
  | ConnClose conn stamp stamp
  | ConnError conn string stamp
  | PeerOpen string stamp
  | PeerConnection conn stamp
  | PeerError peer peer_err stamp
  | ConnectToPeer string connect_result stamp stamp
  | IdentityChange string stamp "nat \<Rightarrow> stamp" "nat \<Rightarrow> stamp" stamp
  | TogglePower stamp stamp "nat \<Rightarrow> stamp" "nat \<Rightarrow> stamp" "nat \<Rightarrow> stamp" stamp
  | SendMessage string "ReplyContext option" stamp stamp
  | EditMessage string string
  | DeleteMessage string
  | SendFile file_obj stamp stamp string
  | Disconnect stamp stamp stamp
  | HandleTyping bool
  | ClearLogs stamp
  | ClearChat stamp

fun step :: "app \<Rightarrow> event \<Rightarrow> app" where
  "step s (Mount g ls) = peer_effect g ls s"
| "step s (ConnOpen c ls ms) =
     conn_on_open c ls ms
       (s\<lparr>openConns := (if c \<in> set (openConns s) then openConns s
                          else openConns s @ [c])\<rparr>)"
| "step s (ConnData c d ms ls url) = conn_on_data c d ms ls url s"
| "step s (ConnClose c ls ms) =
     conn_on_close c ls ms (s\<lparr>openConns := removeAll c (openConns s)\<rparr>)"
| "step s (ConnError c err ls) = conn_on_error c err ls s"
| "step s (PeerOpen i ls) = peer_on_open i ls s"
| "step s (PeerConnection c ls) = peer_on_connection c ls s"
| "step s (PeerError p err ls) = peer_on_error p err ls s"
| "step s (ConnectToPeer targetId res ls ls') = connectToPeer targetId res ls ls' s"
| "step s (IdentityChange newId ls g g' ls') =
     (let s' = handleIdentityChange newId ls s
      in if desiredId s' \<noteq> desiredId s then rerun_peer_effect g g' ls' s' else s')"
| "step s (TogglePower ls ms gt g g' ls') =
     (let s' = togglePower ls ms gt s
      in if isSystemOn s' \<noteq> isSystemOn s then rerun_peer_effect g g' ls' s' else s')"
| "step s (SendMessage content replyTo ls ms) = sendMessage content replyTo ls ms s"
| "step s (EditMessage i newContent) = handleEditMessage i newContent s"
| "step s (DeleteMessage i) = handleDeleteMessage i s"
| "step s (SendFile file ls ms url) = sendFile file ls ms url s"
| "step s (Disconnect cl cm ls) = disconnect cl cm ls s"
| "step s (HandleTyping b) = handleTyping b s"
| "step s (ClearLogs ls) = clearLogs ls s"
| "step s (ClearChat ls) = clearChat ls s"

definition run :: "app \<Rightarrow> event list \<Rightarrow> app" where
  "run s es = foldl step s es"

subsection \<open>Vocabulary of the properties\<close>

text \<open>The message id an acknowledgement, edit or delete payload refers to.\<close>

fun refers_to :: "envelope \<Rightarrow> string option" where
  "refers_to (EAck i) = Some i"
| "refers_to (EEdit i c) = Some i"
| "refers_to (EDelete i) = Some i"
| "refers_to d = None"

text \<open>An inbound ack, edit or delete whose id names none of the given messages.\<close>

fun dangling :: "Message list \<Rightarrow> event \<Rightarrow> bool" where
  "dangling ms (ConnData c d st st' url) =
     (case refers_to d of None \<Rightarrow> False | Some i \<Rightarrow> i \<notin> set (map m_id ms))"
| "dangling ms e = False"

fun is_ClearChat :: "event \<Rightarrow> bool" where
  "is_ClearChat (ClearChat ls) = True"
| "is_ClearChat e = False"

fun is_ack_of :: "string \<Rightarrow> event \<Rightarrow> bool" where
  "is_ack_of m (ConnData c (EAck i) st st' url) = (i = m)"
| "is_ack_of m e = False"

text \<open>The order \<^verbatim>\<open>sending\<close>, \<^verbatim>\<open>sent\<close>, \<^verbatim>\<open>delivered\<close>, below which is having no status.\<close>

fun rank :: "msg_status option \<Rightarrow> nat" where
  "rank None = 0"
| "rank (Some Sending) = 1"
| "rank (Some Sent) = 2"
| "rank (Some Delivered) = 3"

text \<open>The system messages that the \<^verbatim>\<open>'close'\<close> callbacks of one call append.\<close>

fun close_notes :: "conn list \<Rightarrow> (nat \<Rightarrow> stamp) \<Rightarrow> nat \<Rightarrow> Message list" where
  "close_notes [] g k = []"
| "close_notes (c # cs) g k =
     \<lparr>m_id = fst (g (Suc k)), m_sender = System, m_senderId = None,
       m_content = ''Remote peer terminated connection.'', m_timestamp = snd (g (Suc k)),
       m_type = KText, m_file = None, m_status = None, m_replyTo = None,
       m_isEdited = None, m_isDeleted = None\<rparr> # close_notes cs g (Suc (Suc k))"

text \<open>A generator for the examples.\<close>

definition gen :: "string \<Rightarrow> nat \<Rightarrow> stamp" where
  "gen tag n = (tag, 100 + n)"

subsection \<open>Example sessions\<close>

text \<open>
  Node \<open>AAA111\<close> after boot and registration; the same node after accepting an offer
  from \<open>BBB222\<close> whose channel then opened; that session after a channel error; a
  node whose registration was refused; and the ready node after an outbound connect
  whose channel reported an error without ever opening.
\<close>

definition chanB :: conn where
  "chanB = Conn ''BBB222'' 7"

definition nodeA_ready :: app where
  "nodeA_ready =
     run (initial None ''AAA111'')
       [Mount (gen ''c'') (''l0'', 10), PeerOpen ''AAA111'' (''l1'', 11)]"

definition nodeA_linked :: app where
  "nodeA_linked =
     run nodeA_ready
       [PeerConnection chanB (''l2'', 12), ConnOpen chanB (''l3'', 13) (''s0'', 13)]"

definition nodeA_faulted :: app where
  "nodeA_faulted = run nodeA_linked [ConnError chanB ''boom'' (''l4'', 14)]"

definition nodeA_failed :: app where
  "nodeA_failed =
     run (initial None ''AAA111'')
       [Mount (gen ''c'') (''l0'', 10),
        PeerError (Peer ''AAA111'') \<lparr>pe_type = ''unavailable-id'', pe_message = None\<rparr>
          (''l1'', 11)]"

definition chanOut :: conn where
  "chanOut = Conn ''BBB222'' 5"

definition nodeA_stalled :: app where
  "nodeA_stalled =
     run nodeA_ready
       [ConnectToPeer ''BBB222'' (Returns 5) (''l2'', 12) (''l3'', 12),
        ConnError chanOut ''negotiation failed'' (''l4'', 14)]"

definition photo :: file_obj where
  "photo = \<lparr>f_name = ''a.png'', f_size = 256, f_type = ''image/png'', f_bytes = [137, 80]\<rparr>"

definition nodeA_sending :: app where
  "nodeA_sending = run nodeA_linked [SendFile photo (''l5'', 15) (''f1'', 15) ''blob:1'']"

text \<open>Events that hand a file to the channel, and file payloads on the wire.\<close>

fun is_SendFile :: "event \<Rightarrow> bool" where
  "is_SendFile (SendFile file ls ms url) = True"
| "is_SendFile e = False"

fun is_file_payload :: "conn \<times> envelope \<Rightarrow> bool" where
  "is_file_payload (c, EFile fid file name sz mimeType) = True"
| "is_file_payload x = False"

section \<open>Properties\<close>

subsection \<open>Auxiliary facts\<close>

lemmas handler_defs =
  addLog_def addSystemMessage_def clearLogs_def clearChat_def setupConnection_def
  conn_on_open_def conn_on_close_def conn_on_error_def connectToPeer_def
  sendMessage_def handleEditMessage_def handleDeleteMessage_def sendFile_def
  disconnect_def handleTyping_def handleIdentityChange_def togglePower_def
  peer_effect_cleanup_def peer_effect_def rerun_peer_effect_def peer_on_open_def
  peer_on_connection_def peer_on_error_def peer_destroy_def conn_close_def Let_def

lemma run_Nil [simp]: "run s [] = s"
  by (simp add: run_def)

lemma run_Cons [simp]: "run s (e # es) = run (step s e) es"
  by (simp add: run_def)

lemma markDelivered_id [simp]: "m_id (markDelivered i m) = m_id m"
  by (simp add: markDelivered_def)

lemma markEdited_id [simp]: "m_id (markEdited i c m) = m_id m"
  by (simp add: markEdited_def)

lemma markDeleted_id [simp]: "m_id (markDeleted i m) = m_id m"
  by (simp add: markDeleted_def)

lemma markEdited_status [simp]: "m_status (markEdited i c m) = m_status m"
  by (simp add: markEdited_def)

lemma markDeleted_status [simp]: "m_status (markDeleted i m) = m_status m"
  by (simp add: markDeleted_def)

lemma markDelivered_status:
  "m_status (markDelivered i m) = (if m_id m = i then Some Delivered else m_status m)"
  by (simp add: markDelivered_def)

lemma markDelivered_delivers:
  assumes "m \<in> set (map (markDelivered i) xs)" and "m_id m = i"
  shows "m_status m = Some Delivered"
proof -
  from assms(1) have "m \<in> markDelivered i ` set xs" by simp
  then obtain x where x: "m = markDelivered i x" ..
  from assms(2) have "m_id x = i" unfolding x by simp
  then show ?thesis unfolding x by (simp add: markDelivered_def)
qed

text \<open>What a run of \<^verbatim>\<open>'close'\<close> callbacks does to each cell.\<close>

lemma fire_close_messages [simp]:
  "messages (fire_close cs g k s) = messages s @ close_notes cs g k"
  by (induction cs arbitrary: s k) (simp_all add: conn_on_close_def addLog_def addSystemMessage_def)

lemma length_close_notes [simp]: "length (close_notes cs g k) = length cs"
  by (induction cs arbitrary: k) simp_all

lemma close_notes_content:
  "m \<in> set (close_notes cs g k) \<Longrightarrow>
     m_sender m = System \<and> m_content m = ''Remote peer terminated connection.''"
  by (induction cs arbitrary: k) auto

lemma fire_close_frame [simp]:
  "outbox (fire_close cs g k s) = outbox s"
  "openConns (fire_close cs g k s) = openConns s"
  "closedConns (fire_close cs g k s) = closedConns s"
  "destroyedPeers (fire_close cs g k s) = destroyedPeers s"
  "isSystemOn (fire_close cs g k s) = isSystemOn s"
  "desiredId (fire_close cs g k s) = desiredId s"
  "peerId (fire_close cs g k s) = peerId s"
  "peerRef (fire_close cs g k s) = peerRef s"
  "effectPeer (fire_close cs g k s) = effectPeer s"
  "storage (fire_close cs g k s) = storage s"
  by (induction cs arbitrary: s k;
      simp add: conn_on_close_def addLog_def addSystemMessage_def)+

lemma fire_close_connRef [simp]:
  "connRef (fire_close cs g k s) = (if cs = [] then connRef s else None)"
  by (induction cs arbitrary: s k) (simp_all add: conn_on_close_def addLog_def addSystemMessage_def)

lemma fire_close_status [simp]:
  "status (fire_close cs g k s) = (if cs = [] then status s else READY)"
  by (induction cs arbitrary: s k) (simp_all add: conn_on_close_def addLog_def addSystemMessage_def)

text \<open>An updater that only touches records with id \<open>i\<close> is the identity on a log without \<open>i\<close>.\<close>

lemma map_absent:
  assumes "\<And>m. m_id m \<noteq> i \<Longrightarrow> f m = m" and "i \<notin> set (map m_id xs)"
  shows "map f xs = xs"
  using assms by (induction xs) auto

lemma map_markDelivered_absent:
  "i \<notin> set (map m_id xs) \<Longrightarrow> map (markDelivered i) xs = xs"
  by (rule map_absent) (auto simp: markDelivered_def)

lemma map_markEdited_absent:
  "i \<notin> set (map m_id xs) \<Longrightarrow> map (markEdited i c) xs = xs"
  by (rule map_absent) (auto simp: markEdited_def)

lemma map_markDeleted_absent:
  "i \<notin> set (map m_id xs) \<Longrightarrow> map (markDeleted i) xs = xs"
  by (rule map_absent) (auto simp: markDeleted_def)

lemma step_dangling: "dangling (messages s) e \<Longrightarrow> step s e = s"
proof (cases e)
  case (ConnData c d ms ls url)
  assume "dangling (messages s) e"
  with ConnData show ?thesis
    by (cases d)
       (simp_all add: map_markDelivered_absent map_markEdited_absent map_markDeleted_absent)
qed simp_all

text \<open>
  One event, seen from a record already in the log: unless the log is cleared the
  record keeps its position and its id, and its status either stays or becomes
  \<open>Delivered\<close> through an acknowledgement of its id.
\<close>

lemma step_keeps:
  assumes "\<not> is_ClearChat e" and "i < length (messages s)"
  shows "i < length (messages (step s e))
    \<and> m_id (messages (step s e) ! i) = m_id (messages s ! i)
    \<and> (m_status (messages (step s e) ! i) = m_status (messages s ! i)
       \<or> (is_ack_of (m_id (messages s ! i)) e
          \<and> m_status (messages (step s e) ! i) = Some Delivered))"
proof (cases e)
  case (ConnData c d ms ls url)
  with assms show ?thesis
    by (cases d) (simp_all add: nth_append markDelivered_status addLog_def Let_def)
qed (use assms in \<open>simp_all add: nth_append handler_defs
       split: option.splits connect_result.splits\<close>)

lemma run_keeps:
  assumes "\<forall>e \<in> set es. \<not> is_ClearChat e" and "i < length (messages s)"
  shows "i < length (messages (run s es))
    \<and> m_id (messages (run s es) ! i) = m_id (messages s ! i)
    \<and> (m_status (messages (run s es) ! i) = m_status (messages s ! i)
       \<or> ((\<exists>e \<in> set es. is_ack_of (m_id (messages s ! i)) e)
          \<and> m_status (messages (run s es) ! i) = Some Delivered))"
  using assms
proof (induction es arbitrary: s)
  case Nil
  then show ?case by simp
next
  case (Cons e es)
  from Cons.prems have e: "\<not> is_ClearChat e" and es: "\<forall>e \<in> set es. \<not> is_ClearChat e"
    by simp_all
  from step_keeps [OF e Cons.prems(2)]
  have len: "i < length (messages (step s e))"
    and ident: "m_id (messages (step s e) ! i) = m_id (messages s ! i)"
    and stat: "m_status (messages (step s e) ! i) = m_status (messages s ! i)
       \<or> (is_ack_of (m_id (messages s ! i)) e
          \<and> m_status (messages (step s e) ! i) = Some Delivered)"
    by simp_all
  from Cons.IH [OF es len]
  have len': "i < length (messages (run (step s e) es))"
    and ident': "m_id (messages (run (step s e) es) ! i) = m_id (messages (step s e) ! i)"
    and stat': "m_status (messages (run (step s e) es) ! i) = m_status (messages (step s e) ! i)
       \<or> ((\<exists>e' \<in> set es. is_ack_of (m_id (messages (step s e) ! i)) e')
          \<and> m_status (messages (run (step s e) es) ! i) = Some Delivered)"
    by simp_all
  from stat stat' ident show ?case
    using len' ident' by auto
qed

lemma rank_Delivered: "rank st \<le> 3"
  by (cases st rule: rank.cases) simp_all

subsection \<open>The example sessions, evaluated\<close>

lemma nodeA_ready_eq:
  "nodeA_ready =
     \<lparr>isSystemOn = True, status = READY, isRemoteTyping = False, desiredId = ''AAA111'',
      peerId = ''AAA111'', messages = [],
      logs = [\<lparr>l_id = ''l0'', l_message = MSG_PEER_INIT, l_timestamp = 10, l_type = Info\<rparr>,
              \<lparr>l_id = ''l1'', l_message = ''Identity confirmed: AAA111'', l_timestamp = 11,
                l_type = Success\<rparr>],
      peerRef = Some (Peer ''AAA111''), connRef = None, storage = Some ''AAA111'',
      outbox = [], closedConns = [], destroyedPeers = [],
      effectPeer = Some (Peer ''AAA111''), openConns = []\<rparr>"
  by (simp add: nodeA_ready_def initial_def handler_defs)

lemma nodeA_linked_eq:
  "nodeA_linked =
     nodeA_ready
       \<lparr>status := CONNECTED, connRef := Some chanB, openConns := [chanB],
        messages := [\<lparr>m_id = ''s0'', m_sender = System, m_senderId = None,
          m_content = ''Encrypted connection established with BBB222'',
          m_timestamp = 13, m_type = KText, m_file = None, m_status = None,
          m_replyTo = None, m_isEdited = None, m_isDeleted = None\<rparr>],
        logs := logs nodeA_ready @
          [\<lparr>l_id = ''l2'', l_message = ''Incoming handshake from: BBB222'', l_timestamp = 12,
            l_type = Warning\<rparr>,
           \<lparr>l_id = ''l3'', l_message = MSG_CONNECTED, l_timestamp = 13, l_type = Success\<rparr>]\<rparr>"
  by (simp add: nodeA_linked_def nodeA_ready_eq handler_defs chanB_def)

lemma nodeA_faulted_eq:
  "nodeA_faulted =
     nodeA_linked
       \<lparr>status := READY,
        logs := logs nodeA_linked @
          [\<lparr>l_id = ''l4'', l_message = ''Connection error: boom'', l_timestamp = 14,
            l_type = Error\<rparr>]\<rparr>"
  by (simp add: nodeA_faulted_def nodeA_linked_eq nodeA_ready_eq handler_defs)

lemma nodeA_failed_facts:
  "status nodeA_failed = ERROR" "peerId nodeA_failed = []"
  "peerRef nodeA_failed = Some (Peer ''AAA111'')" "connRef nodeA_failed = None"
  by (simp_all add: nodeA_failed_def initial_def handler_defs)

lemma nodeA_stalled_eq:
  "nodeA_stalled =
     nodeA_ready
       \<lparr>connRef := Some chanOut,
        logs := logs nodeA_ready @
          [\<lparr>l_id = ''l2'', l_message = ''Initiating handshake with BBB222...'',
            l_timestamp = 12, l_type = Info\<rparr>,
           \<lparr>l_id = ''l4'', l_message = ''Connection error: negotiation failed'',
            l_timestamp = 14, l_type = Error\<rparr>]\<rparr>"
  by (simp add: nodeA_stalled_def nodeA_ready_eq handler_defs chanOut_def)

lemma nodeA_sending_eq:
  "nodeA_sending =
     nodeA_linked
       \<lparr>messages := messages nodeA_linked @
          [\<lparr>m_id = ''f1'', m_sender = Local, m_senderId = Some ''AAA111'',
            m_content = ''Sending file: a.png'', m_timestamp = 15, m_type = KFile,
            m_file = Some \<lparr>fm_name = ''a.png'', fm_size = 256, fm_mimeType = ''image/png'',
                           fm_blobUrl = Some ''blob:1''\<rparr>,
            m_status = Some Sending, m_replyTo = None, m_isEdited = None,
            m_isDeleted = None\<rparr>],
        logs := logs nodeA_linked @
          [\<lparr>l_id = ''l5'', l_message = ''Initiating file transfer: a.png (0.3KB)...'',
            l_timestamp = 15, l_type = Info\<rparr>],
        outbox := [(chanB, EFile ''f1'' photo ''a.png'' 256 ''image/png'')]\<rparr>"
  by (simp add: nodeA_sending_def nodeA_linked_eq nodeA_ready_eq sendFile_def addLog_def
        Let_def photo_def toFixed1_KB_def decimal.simps)

subsection \<open>Sending text without a link\<close>

text \<open>
  C2. Whenever \<^verbatim>\<open>sendMessage\<close> runs while the status is not \<open>CONNECTED\<close>, the state
  afterwards is the state before with exactly one entry added to the diagnostic log:
  the message log, the payloads sent on any channel and every other field are as
  they were.
\<close>

theorem sendMessage_not_connected:
  "status s \<noteq> CONNECTED \<Longrightarrow>
     sendMessage content replyTo ls ms s =
       s\<lparr>logs := logs s @
          [\<lparr>l_id = fst ls, l_message = ''Cannot send: No active uplink.'',
            l_timestamp = snd ls, l_type = Error\<rparr>]\<rparr>
     \<and> messages (sendMessage content replyTo ls ms s) = messages s
     \<and> outbox (sendMessage content replyTo ls ms s) = outbox s
     \<and> length (logs (sendMessage content replyTo ls ms s)) = Suc (length (logs s))"
  by (simp add: sendMessage_def addLog_def split: option.splits)

text \<open>The faulted session holds a channel handle but is \<open>READY\<close>: sending only logs.\<close>

theorem sendMessage_not_connected_witness:
  "status nodeA_faulted \<noteq> CONNECTED
   \<and> connRef nodeA_faulted = Some chanB
   \<and> messages (sendMessage ''hello'' None (''l5'', 15) (''m1'', 15) nodeA_faulted)
       = messages nodeA_faulted
   \<and> outbox (sendMessage ''hello'' None (''l5'', 15) (''m1'', 15) nodeA_faulted) = []
   \<and> length (logs (sendMessage ''hello'' None (''l5'', 15) (''m1'', 15) nodeA_faulted)) = 6"
  using sendMessage_not_connected
          [of nodeA_faulted "''hello''" None "(''l5'', 15)" "(''m1'', 15)"]
  by (simp add: nodeA_faulted_eq nodeA_linked_eq nodeA_ready_eq)

subsection \<open>Signals that refer to no message\<close>

text \<open>
  C4. A sequence of inbound \<^verbatim>\<open>ack\<close>, \<^verbatim>\<open>edit\<close> and \<^verbatim>\<open>delete\<close> payloads, each naming an id
  that no message of the log carries, leaves the message log (indeed the whole state)
  as it was. The data callback has no failing branch: it returns a state for every
  payload.
\<close>

theorem dangling_refs_noop:
  "\<forall>e \<in> set es. dangling (messages s) e \<Longrightarrow>
     run s es = s \<and> messages (run s es) = messages s"
  by (induction es) (simp_all add: step_dangling)

theorem dangling_refs_noop_witness:
  "list_all (dangling (messages nodeA_sending))
     [ConnData chanB (EAck ''zz'') (''r1'', 20) (''l5'', 20) ''u'',
      ConnData chanB (EEdit ''zz'' ''new'') (''r2'', 21) (''l6'', 21) ''u'',
      ConnData chanB (EDelete ''yy'') (''r3'', 22) (''l7'', 22) ''u'']
   \<and> messages (run nodeA_sending
        [ConnData chanB (EAck ''zz'') (''r1'', 20) (''l5'', 20) ''u'',
         ConnData chanB (EEdit ''zz'' ''new'') (''r2'', 21) (''l6'', 21) ''u'',
         ConnData chanB (EDelete ''yy'') (''r3'', 22) (''l7'', 22) ''u''])
       = messages nodeA_sending"
  using dangling_refs_noop
          [of "[ConnData chanB (EAck ''zz'') (''r1'', 20) (''l5'', 20) ''u'',
                ConnData chanB (EEdit ''zz'' ''new'') (''r2'', 21) (''l6'', 21) ''u'',
                ConnData chanB (EDelete ''yy'') (''r3'', 22) (''l7'', 22) ''u'']"
              nodeA_sending]
  by (simp add: nodeA_sending_eq nodeA_linked_eq nodeA_ready_eq)

subsection \<open>The status of a message over time\<close>

text \<open>
  C3. Take any message of the log and any sequence of events that does not clear the
  log (acknowledgements, edits, deletes, sends and every other event of the
  component). The message keeps its place and id; its status never moves down in the
  order sending, sent, delivered; and it is either exactly what it was, or it is
  \<open>Delivered\<close> and the sequence contains an acknowledgement of the message's id. So
  \<open>Sending\<close> and \<open>Sent\<close> are never assigned to an existing message: they come from its
  creation only.
\<close>

theorem status_never_regresses:
  assumes "\<forall>e \<in> set es. \<not> is_ClearChat e" and "i < length (messages s)"
  shows "i < length (messages (run s es))
    \<and> m_id (messages (run s es) ! i) = m_id (messages s ! i)
    \<and> rank (m_status (messages s ! i)) \<le> rank (m_status (messages (run s es) ! i))
    \<and> (m_status (messages (run s es) ! i) = m_status (messages s ! i)
       \<or> (m_status (messages (run s es) ! i) = Some Delivered
          \<and> (\<exists>e \<in> set es. is_ack_of (m_id (messages s ! i)) e)))"
proof -
  from run_keeps [OF assms]
  have len: "i < length (messages (run s es))"
    and ident: "m_id (messages (run s es) ! i) = m_id (messages s ! i)"
    and stat: "m_status (messages (run s es) ! i) = m_status (messages s ! i)
       \<or> ((\<exists>e \<in> set es. is_ack_of (m_id (messages s ! i)) e)
          \<and> m_status (messages (run s es) ! i) = Some Delivered)"
    by simp_all
  from stat have "rank (m_status (messages s ! i)) \<le> rank (m_status (messages (run s es) ! i))"
    by (auto simp: rank_Delivered)
  with len ident stat show ?thesis by blast
qed

text \<open>
  The file message of the example, through a local edit, its acknowledgement, a local
  delete, a text send and a replayed acknowledgement: it ends \<open>Delivered\<close>.
\<close>

theorem status_never_regresses_witness:
  "list_all (\<lambda>e. \<not> is_ClearChat e)
     [EditMessage ''f1'' ''x'',
      ConnData chanB (EAck ''f1'') (''r1'', 20) (''l6'', 20) ''u'',
      DeleteMessage ''f1'',
      SendMessage ''hi'' None (''l7'', 21) (''m2'', 21),
      ConnData chanB (EAck ''f1'') (''r2'', 22) (''l8'', 22) ''u'']
   \<and> 1 < length (messages nodeA_sending)
   \<and> m_status (messages nodeA_sending ! 1) = Some Sending
   \<and> rank (Some Sending)
       \<le> rank (m_status (messages (run nodeA_sending
            [EditMessage ''f1'' ''x'',
             ConnData chanB (EAck ''f1'') (''r1'', 20) (''l6'', 20) ''u'',
             DeleteMessage ''f1'',
             SendMessage ''hi'' None (''l7'', 21) (''m2'', 21),
             ConnData chanB (EAck ''f1'') (''r2'', 22) (''l8'', 22) ''u'']) ! 1))"
  using status_never_regresses
          [of "[EditMessage ''f1'' ''x'',
                ConnData chanB (EAck ''f1'') (''r1'', 20) (''l6'', 20) ''u'',
                DeleteMessage ''f1'',
                SendMessage ''hi'' None (''l7'', 21) (''m2'', 21),
                ConnData chanB (EAck ''f1'') (''r2'', 22) (''l8'', 22) ''u'']"
              1 nodeA_sending]
  by (simp add: nodeA_sending_eq nodeA_linked_eq nodeA_ready_eq handler_defs
        markDelivered_def markEdited_def markDeleted_def)

subsection \<open>Replayed acknowledgements\<close>

text \<open>
  C8. After one application of \<^verbatim>\<open>ack{messageId}\<close> every message carrying that id has
  status \<open>Delivered\<close>, and a second application of the same acknowledgement returns the
  very same state, so the whole message log is unchanged by it.
\<close>

theorem ack_idempotent:
  "conn_on_data c' (EAck i) ms' ls' url' (conn_on_data c (EAck i) ms ls url s)
     = conn_on_data c (EAck i) ms ls url s
   \<and> (\<forall>m \<in> set (messages (conn_on_data c (EAck i) ms ls url s)).
         m_id m = i \<longrightarrow> m_status m = Some Delivered)"
proof (intro conjI ballI impI)
  have idem: "map (markDelivered i) (map (markDelivered i) xs) = map (markDelivered i) xs" for xs
    by (induction xs) (simp_all add: markDelivered_def)
  show "conn_on_data c' (EAck i) ms' ls' url' (conn_on_data c (EAck i) ms ls url s)
          = conn_on_data c (EAck i) ms ls url s"
    by (simp add: idem del: map_map)
next
  fix m
  assume "m \<in> set (messages (conn_on_data c (EAck i) ms ls url s))" and "m_id m = i"
  then have "m \<in> set (map (markDelivered i) (messages s))" by simp
  then show "m_status m = Some Delivered"
    using \<open>m_id m = i\<close> by (rule markDelivered_delivers)
qed

theorem ack_idempotent_witness:
  "m_status (messages nodeA_sending ! 1) = Some Sending
   \<and> m_status (messages (conn_on_data chanB (EAck ''f1'') (''r1'', 20) (''l6'', 20) ''u''
        nodeA_sending) ! 1) = Some Delivered
   \<and> conn_on_data chanB (EAck ''f1'') (''r2'', 21) (''l7'', 21) ''u''
       (conn_on_data chanB (EAck ''f1'') (''r1'', 20) (''l6'', 20) ''u'' nodeA_sending)
     = conn_on_data chanB (EAck ''f1'') (''r1'', 20) (''l6'', 20) ''u'' nodeA_sending"
proof (intro conjI)
  show "m_status (messages nodeA_sending ! 1) = Some Sending"
    by (simp add: nodeA_sending_eq nodeA_linked_eq nodeA_ready_eq)
  show "m_status (messages (conn_on_data chanB (EAck ''f1'') (''r1'', 20) (''l6'', 20) ''u''
          nodeA_sending) ! 1) = Some Delivered"
    by (simp add: nodeA_sending_eq nodeA_linked_eq nodeA_ready_eq markDelivered_def)
  show "conn_on_data chanB (EAck ''f1'') (''r2'', 21) (''l7'', 21) ''u''
          (conn_on_data chanB (EAck ''f1'') (''r1'', 20) (''l6'', 20) ''u'' nodeA_sending)
        = conn_on_data chanB (EAck ''f1'') (''r1'', 20) (''l6'', 20) ''u'' nodeA_sending"
    by (rule conjunct1 [OF ack_idempotent])
qed

subsection \<open>A second inbound offer\<close>

text \<open>
  C6. When an inbound connection offer arrives while \<^verbatim>\<open>connRef\<close> holds a channel handle,
  the offer is closed, one diagnostic entry is logged, and nothing else changes: the
  status, the channel handle and the message log are those of the state before.
\<close>

theorem concurrent_offer_rejected:
  "connRef s = Some held \<Longrightarrow>
     peer_on_connection c ls s =
       s\<lparr>closedConns := closedConns s @ [c],
         logs := logs s @
           [\<lparr>l_id = fst ls, l_message = ''Rejected concurrent connection attempt'',
             l_timestamp = snd ls, l_type = Warning\<rparr>]\<rparr>
     \<and> status (peer_on_connection c ls s) = status s
     \<and> connRef (peer_on_connection c ls s) = Some held
     \<and> messages (peer_on_connection c ls s) = messages s"
  by (simp add: peer_on_connection_def addLog_def)

theorem concurrent_offer_rejected_witness:
  "connRef nodeA_linked = Some chanB
   \<and> closedConns (peer_on_connection (Conn ''DDD444'' 9) (''l5'', 15) nodeA_linked)
       = [Conn ''DDD444'' 9]
   \<and> status (peer_on_connection (Conn ''DDD444'' 9) (''l5'', 15) nodeA_linked) = CONNECTED
   \<and> connRef (peer_on_connection (Conn ''DDD444'' 9) (''l5'', 15) nodeA_linked) = Some chanB
   \<and> messages (peer_on_connection (Conn ''DDD444'' 9) (''l5'', 15) nodeA_linked)
       = messages nodeA_linked"
  using concurrent_offer_rejected [of nodeA_linked chanB "Conn ''DDD444'' 9" "(''l5'', 15)"]
  by (simp add: nodeA_linked_eq nodeA_ready_eq)

subsection \<open>Changing the identity\<close>

text \<open>
  C7, as the code has it. While the system is on and a registration exists, choosing an
  identity different from the current one (\<^verbatim>\<open>handleIdentityChange\<close>, then the registration
  effect running again because \<^verbatim>\<open>desiredId\<close> changed) destroys the registered peer, which
  closes every open channel, creates a peer for the new identity and enters
  \<open>INITIALIZING\<close> with the confirmed identity blank. Each channel closed runs its
  \<^verbatim>\<open>'close'\<close> callback, which releases the channel handle and appends one system message.
  No message record is removed or altered: the log afterwards is the log before followed
  by one system message per channel closed, and it is exactly the log before when no
  channel was open.
\<close>

theorem identity_change_keeps_log:
  assumes "isSystemOn s" and "newId \<noteq> peerId s" and "newId \<noteq> desiredId s"
    and "effectPeer s = Some p"
  shows "take (length (messages s)) (messages (step s (IdentityChange newId ls g g' ls')))
        = messages s
    \<and> length (messages (step s (IdentityChange newId ls g g' ls')))
        = length (messages s) + length (openConns s)
    \<and> list_all (\<lambda>m. m_sender m = System
                       \<and> m_content m = ''Remote peer terminated connection.'')
         (drop (length (messages s)) (messages (step s (IdentityChange newId ls g g' ls'))))
    \<and> (openConns s = [] \<longrightarrow>
          messages (step s (IdentityChange newId ls g g' ls')) = messages s)
    \<and> (openConns s \<noteq> [] \<longrightarrow>
          connRef (step s (IdentityChange newId ls g g' ls')) = None)
    \<and> openConns (step s (IdentityChange newId ls g g' ls')) = []
    \<and> p \<in> set (destroyedPeers (step s (IdentityChange newId ls g g' ls')))
    \<and> status (step s (IdentityChange newId ls g g' ls')) = INITIALIZING
    \<and> desiredId (step s (IdentityChange newId ls g g' ls')) = newId
    \<and> storage (step s (IdentityChange newId ls g g' ls')) = Some newId
    \<and> peerId (step s (IdentityChange newId ls g g' ls')) = []
    \<and> isRemoteTyping (step s (IdentityChange newId ls g g' ls')) = False
    \<and> peerRef (step s (IdentityChange newId ls g g' ls')) = Some (Peer newId)"
proof -
  have msgs: "messages (step s (IdentityChange newId ls g g' ls'))
      = messages s @ close_notes (openConns s) g 0"
    using assms by (simp add: handler_defs split: option.splits)
  have sysmsgs: "list_all (\<lambda>m. m_sender m = System
                       \<and> m_content m = ''Remote peer terminated connection.'')
         (close_notes (openConns s) g 0)"
    unfolding list_all_iff using close_notes_content by blast
  have log: "take (length (messages s)) (messages (step s (IdentityChange newId ls g g' ls')))
        = messages s
    \<and> length (messages (step s (IdentityChange newId ls g g' ls')))
        = length (messages s) + length (openConns s)
    \<and> list_all (\<lambda>m. m_sender m = System
                       \<and> m_content m = ''Remote peer terminated connection.'')
         (drop (length (messages s)) (messages (step s (IdentityChange newId ls g g' ls'))))
    \<and> (openConns s = [] \<longrightarrow>
          messages (step s (IdentityChange newId ls g g' ls')) = messages s)"
    unfolding msgs using sysmsgs by simp
  have chan: "(openConns s \<noteq> [] \<longrightarrow>
          connRef (step s (IdentityChange newId ls g g' ls')) = None)
    \<and> openConns (step s (IdentityChange newId ls g g' ls')) = []
    \<and> p \<in> set (destroyedPeers (step s (IdentityChange newId ls g g' ls')))"
    using assms by (simp add: handler_defs split: option.splits)
  have reg: "status (step s (IdentityChange newId ls g g' ls')) = INITIALIZING
    \<and> desiredId (step s (IdentityChange newId ls g g' ls')) = newId
    \<and> storage (step s (IdentityChange newId ls g g' ls')) = Some newId
    \<and> peerId (step s (IdentityChange newId ls g g' ls')) = []
    \<and> isRemoteTyping (step s (IdentityChange newId ls g g' ls')) = False
    \<and> peerRef (step s (IdentityChange newId ls g g' ls')) = Some (Peer newId)"
    using assms by (simp add: handler_defs split: option.splits)
  from log chan reg show ?thesis by blast
qed

text \<open>
  The linked session has one open channel: the identity change closes it, releases the
  handle and leaves the first record in place with one system message after it. The
  ready session has none, and its log is untouched.
\<close>

theorem identity_change_keeps_log_witness:
  "isSystemOn nodeA_linked \<and> ''CCC333'' \<noteq> peerId nodeA_linked
   \<and> ''CCC333'' \<noteq> desiredId nodeA_linked
   \<and> effectPeer nodeA_linked = Some (Peer ''AAA111'')
   \<and> openConns nodeA_linked = [chanB]
   \<and> take 1 (messages (step nodeA_linked
        (IdentityChange ''CCC333'' (''l5'', 15) (gen ''c'') (gen ''d'') (''l6'', 16))))
       = messages nodeA_linked
   \<and> length (messages (step nodeA_linked
        (IdentityChange ''CCC333'' (''l5'', 15) (gen ''c'') (gen ''d'') (''l6'', 16)))) = 2
   \<and> connRef (step nodeA_linked
        (IdentityChange ''CCC333'' (''l5'', 15) (gen ''c'') (gen ''d'') (''l6'', 16))) = None
   \<and> status (step nodeA_linked
        (IdentityChange ''CCC333'' (''l5'', 15) (gen ''c'') (gen ''d'') (''l6'', 16)))
       = INITIALIZING
   \<and> peerRef (step nodeA_linked
        (IdentityChange ''CCC333'' (''l5'', 15) (gen ''c'') (gen ''d'') (''l6'', 16)))
       = Some (Peer ''CCC333'')
   \<and> isSystemOn nodeA_ready \<and> openConns nodeA_ready = []
   \<and> messages (step nodeA_ready
        (IdentityChange ''CCC333'' (''l5'', 15) (gen ''c'') (gen ''d'') (''l6'', 16)))
       = messages nodeA_ready"
proof -
  have h: "isSystemOn nodeA_linked" "''CCC333'' \<noteq> peerId nodeA_linked"
    "''CCC333'' \<noteq> desiredId nodeA_linked" "effectPeer nodeA_linked = Some (Peer ''AAA111'')"
    by (simp_all add: nodeA_linked_eq nodeA_ready_eq)
  have h': "isSystemOn nodeA_ready" "''CCC333'' \<noteq> peerId nodeA_ready"
    "''CCC333'' \<noteq> desiredId nodeA_ready" "effectPeer nodeA_ready = Some (Peer ''AAA111'')"
    by (simp_all add: nodeA_ready_eq)
  have o: "openConns nodeA_linked = [chanB]" "length (messages nodeA_linked) = 1"
    "openConns nodeA_ready = []"
    by (simp_all add: nodeA_linked_eq nodeA_ready_eq)
  note w = identity_change_keeps_log
             [OF h, of "(''l5'', 15)" "gen ''c''" "gen ''d''" "(''l6'', 16)"]
  note w' = identity_change_keeps_log
             [OF h', of "(''l5'', 15)" "gen ''c''" "gen ''d''" "(''l6'', 16)"]
  from w o have "take 1 (messages (step nodeA_linked
        (IdentityChange ''CCC333'' (''l5'', 15) (gen ''c'') (gen ''d'') (''l6'', 16))))
       = messages nodeA_linked"
    and "length (messages (step nodeA_linked
        (IdentityChange ''CCC333'' (''l5'', 15) (gen ''c'') (gen ''d'') (''l6'', 16)))) = 2"
    and "connRef (step nodeA_linked
        (IdentityChange ''CCC333'' (''l5'', 15) (gen ''c'') (gen ''d'') (''l6'', 16))) = None"
    and "status (step nodeA_linked
        (IdentityChange ''CCC333'' (''l5'', 15) (gen ''c'') (gen ''d'') (''l6'', 16)))
       = INITIALIZING"
    and "peerRef (step nodeA_linked
        (IdentityChange ''CCC333'' (''l5'', 15) (gen ''c'') (gen ''d'') (''l6'', 16)))
       = Some (Peer ''CCC333'')"
    by simp_all
  moreover from w' o have "messages (step nodeA_ready
        (IdentityChange ''CCC333'' (''l5'', 15) (gen ''c'') (gen ''d'') (''l6'', 16)))
       = messages nodeA_ready"
    by blast
  ultimately show ?thesis using h h' o by blast
qed

text \<open>
  The message log is not always left exactly as it was: in the linked session the
  identity change adds the system message of the closed channel.
\<close>

theorem identity_change_appends_counterexample:
  "messages (step nodeA_linked
      (IdentityChange ''CCC333'' (''l5'', 15) (gen ''c'') (gen ''d'') (''l6'', 16)))
     \<noteq> messages nodeA_linked
   \<and> messages (step nodeA_linked
      (IdentityChange ''CCC333'' (''l5'', 15) (gen ''c'') (gen ''d'') (''l6'', 16)))
     = messages nodeA_linked @
         [\<lparr>m_id = ''c'', m_sender = System, m_senderId = None,
           m_content = ''Remote peer terminated connection.'', m_timestamp = 101,
           m_type = KText, m_file = None, m_status = None, m_replyTo = None,
           m_isEdited = None, m_isDeleted = None\<rparr>]"
  by (simp add: nodeA_linked_eq nodeA_ready_eq handler_defs gen_def)

subsection \<open>File transfer and its acknowledgement\<close>

lemma step_outbox_files:
  assumes "\<not> is_SendFile e"
  shows "filter is_file_payload (outbox (step s e)) = filter is_file_payload (outbox s)"
proof (cases e)
  case (ConnData c d ms ls url)
  then show ?thesis
    by (cases d) (simp_all add: addLog_def Let_def)
qed (use assms in \<open>simp_all add: handler_defs split: option.splits connect_result.splits\<close>)

lemma run_outbox_files:
  "\<forall>e \<in> set es. \<not> is_SendFile e \<Longrightarrow>
     filter is_file_payload (outbox (run s es)) = filter is_file_payload (outbox s)"
  by (induction es arbitrary: s) (simp_all add: step_outbox_files)

text \<open>
  C5. On a connected sender, \<^verbatim>\<open>sendFile\<close> with generated id \<open>m\<close> appends a message with
  id \<open>m\<close> and status \<open>Sending\<close> and puts a file payload carrying \<open>m\<close> on the channel. A
  receiver handling that payload appends a remote file message, logs one success entry
  and sends \<^verbatim>\<open>ack{messageId: m}\<close> on the same connection. When the sender handles that
  acknowledgement its message is \<open>Delivered\<close>. Over any sequence of events with no
  acknowledgement of \<open>m\<close> (and no clearing of the log) the message is still \<open>Sending\<close>, and
  over any sequence without a further \<^verbatim>\<open>sendFile\<close> no file payload is put on the channel
  again: nothing retries.
\<close>

theorem file_transfer_ack_cycle:
  fixes a b :: app and fobj :: file_obj and m url url' :: string and t :: nat
    and ls rs ls' :: stamp and c cb :: conn
    and wire :: envelope and a' b' :: app and k :: nat
  defines "wire \<equiv> EFile m fobj (f_name fobj) (f_size fobj) (f_type fobj)"
    and "a' \<equiv> sendFile fobj ls (m, t) url a"
    and "b' \<equiv> conn_on_data cb wire rs ls' url' b"
    and "k \<equiv> length (messages a)"
  assumes "connRef a = Some c" and "status a = CONNECTED"
  shows "length (messages a') = Suc k \<and> take k (messages a') = messages a
    \<and> m_id (messages a' ! k) = m \<and> m_status (messages a' ! k) = Some Sending
    \<and> outbox a' = outbox a @ [(c, wire)]
    \<and> messages b' = messages b @
         [\<lparr>m_id = fst rs, m_sender = Remote, m_senderId = Some (conn_peer cb),
           m_content = ''Received file: '' @ f_name fobj, m_timestamp = snd rs,
           m_type = KFile,
           m_file = Some \<lparr>fm_name = f_name fobj, fm_size = f_size fobj,
                          fm_mimeType = f_type fobj, fm_blobUrl = Some url'\<rparr>,
           m_status = None, m_replyTo = None, m_isEdited = None, m_isDeleted = None\<rparr>]
    \<and> logs b' = logs b @
         [\<lparr>l_id = fst ls', l_message = ''Received file packet: '' @ f_name fobj,
           l_timestamp = snd ls', l_type = Success\<rparr>]
    \<and> outbox b' = outbox b @ [(cb, EAck m)]
    \<and> m_status (messages (conn_on_data c (EAck m) rs' ls'' url'' a') ! k) = Some Delivered
    \<and> (\<forall>es. (\<forall>e \<in> set es. \<not> is_ClearChat e \<and> \<not> is_ack_of m e) \<longrightarrow>
          k < length (messages (run a' es))
          \<and> m_status (messages (run a' es) ! k) = Some Sending)
    \<and> (\<forall>es. (\<forall>e \<in> set es. \<not> is_SendFile e) \<longrightarrow>
          filter is_file_payload (outbox (run a' es)) = filter is_file_payload (outbox a'))"
proof -
  have msgs: "messages a' = messages a @
         [\<lparr>m_id = m, m_sender = Local, m_senderId = Some (peerId a),
           m_content = ''Sending file: '' @ f_name fobj, m_timestamp = t, m_type = KFile,
           m_file = Some \<lparr>fm_name = f_name fobj, fm_size = f_size fobj,
                          fm_mimeType = f_type fobj, fm_blobUrl = Some url\<rparr>,
           m_status = Some Sending, m_replyTo = None, m_isEdited = None,
           m_isDeleted = None\<rparr>]"
    using assms(5,6) by (simp add: a'_def sendFile_def addLog_def Let_def)
  have sender: "length (messages a') = Suc k \<and> take k (messages a') = messages a
    \<and> m_id (messages a' ! k) = m \<and> m_status (messages a' ! k) = Some Sending"
    by (simp add: msgs k_def)
  have sent: "outbox a' = outbox a @ [(c, wire)]"
    using assms(5,6) by (simp add: a'_def wire_def sendFile_def addLog_def Let_def)
  have receiver: "messages b' = messages b @
         [\<lparr>m_id = fst rs, m_sender = Remote, m_senderId = Some (conn_peer cb),
           m_content = ''Received file: '' @ f_name fobj, m_timestamp = snd rs,
           m_type = KFile,
           m_file = Some \<lparr>fm_name = f_name fobj, fm_size = f_size fobj,
                          fm_mimeType = f_type fobj, fm_blobUrl = Some url'\<rparr>,
           m_status = None, m_replyTo = None, m_isEdited = None, m_isDeleted = None\<rparr>]
    \<and> logs b' = logs b @
         [\<lparr>l_id = fst ls', l_message = ''Received file packet: '' @ f_name fobj,
           l_timestamp = snd ls', l_type = Success\<rparr>]
    \<and> outbox b' = outbox b @ [(cb, EAck m)]"
    by (simp add: b'_def wire_def addLog_def Let_def)
  have acked: "m_status (messages (conn_on_data c (EAck m) rs' ls'' url'' a') ! k)
      = Some Delivered"
    by (simp add: msgs k_def nth_append markDelivered_def)
  have waiting: "k < length (messages (run a' es))
      \<and> m_status (messages (run a' es) ! k) = Some Sending"
    if "\<forall>e \<in> set es. \<not> is_ClearChat e \<and> \<not> is_ack_of m e" for es
  proof -
    from that have noclear: "\<forall>e \<in> set es. \<not> is_ClearChat e" by blast
    from sender have klen: "k < length (messages a')" by simp
    from run_keeps [OF noclear klen] sender that show ?thesis by auto
  qed
  have quiet: "filter is_file_payload (outbox (run a' es)) = filter is_file_payload (outbox a')"
    if "\<forall>e \<in> set es. \<not> is_SendFile e" for es
    using that by (rule run_outbox_files)
  from sender sent receiver acked waiting quiet show ?thesis by blast
qed

theorem file_transfer_ack_cycle_witness:
  "connRef nodeA_linked = Some chanB \<and> status nodeA_linked = CONNECTED
   \<and> outbox (sendFile photo (''l5'', 15) (''f1'', 15) ''blob:1'' nodeA_linked)
       = [(chanB, EFile ''f1'' photo ''a.png'' 256 ''image/png'')]
   \<and> outbox (conn_on_data (Conn ''AAA111'' 4)
        (EFile ''f1'' photo ''a.png'' 256 ''image/png'') (''r9'', 16) (''k1'', 16) ''blob:2''
        nodeA_ready) = [(Conn ''AAA111'' 4, EAck ''f1'')]
   \<and> m_status (messages (conn_on_data chanB (EAck ''f1'') (''r1'', 20) (''l6'', 20) ''u''
        (sendFile photo (''l5'', 15) (''f1'', 15) ''blob:1'' nodeA_linked)) ! 1)
       = Some Delivered
   \<and> m_status (messages (run (sendFile photo (''l5'', 15) (''f1'', 15) ''blob:1'' nodeA_linked)
        [ConnData chanB (EAck ''zz'') (''r1'', 20) (''l6'', 20) ''u'',
         EditMessage ''f1'' ''x'']) ! 1) = Some Sending"
proof -
  have linked: "connRef nodeA_linked = Some chanB" "status nodeA_linked = CONNECTED"
    by (simp_all add: nodeA_linked_eq nodeA_ready_eq)
  have len: "length (messages nodeA_linked) = 1"
    by (simp add: nodeA_linked_eq nodeA_ready_eq)
  have es: "\<forall>e \<in> set [ConnData chanB (EAck ''zz'') (''r1'', 20) (''l6'', 20) ''u'',
                        EditMessage ''f1'' ''x''].
              \<not> is_ClearChat e \<and> \<not> is_ack_of ''f1'' e"
    by simp
  note w = file_transfer_ack_cycle
             [where a = nodeA_linked and c = chanB and fobj = photo and m = "''f1''" and t = 15
                and ls = "(''l5'', 15)" and url = "''blob:1''" and b = nodeA_ready
                and cb = "Conn ''AAA111'' 4" and rs = "(''r9'', 16)" and ls' = "(''k1'', 16)"
                and url' = "''blob:2''" and rs' = "(''r1'', 20)" and ls'' = "(''l6'', 20)"
                and url'' = "''u''", OF linked]
  from w have sent: "outbox (sendFile photo (''l5'', 15) (''f1'', 15) ''blob:1'' nodeA_linked)
       = outbox nodeA_linked @
           [(chanB, EFile ''f1'' photo (f_name photo) (f_size photo) (f_type photo))]"
    by blast
  from w have reply: "outbox (conn_on_data (Conn ''AAA111'' 4)
        (EFile ''f1'' photo (f_name photo) (f_size photo) (f_type photo)) (''r9'', 16)
        (''k1'', 16) ''blob:2'' nodeA_ready) = outbox nodeA_ready @ [(Conn ''AAA111'' 4, EAck ''f1'')]"
    by blast
  from w have acked: "m_status (messages (conn_on_data chanB (EAck ''f1'') (''r1'', 20)
        (''l6'', 20) ''u'' (sendFile photo (''l5'', 15) (''f1'', 15) ''blob:1'' nodeA_linked))
          ! length (messages nodeA_linked)) = Some Delivered"
    by blast
  from w es
  have waiting: "m_status (messages (run
        (sendFile photo (''l5'', 15) (''f1'', 15) ''blob:1'' nodeA_linked)
        [ConnData chanB (EAck ''zz'') (''r1'', 20) (''l6'', 20) ''u'',
         EditMessage ''f1'' ''x'']) ! length (messages nodeA_linked)) = Some Sending"
    by blast
  have "outbox nodeA_linked = []" "outbox nodeA_ready = []"
    "f_name photo = ''a.png''" "f_size photo = 256" "f_type photo = ''image/png''"
    by (simp_all add: nodeA_linked_eq nodeA_ready_eq photo_def)
  with sent reply acked waiting linked show ?thesis
    by (simp only: len append_Nil)
qed

subsection \<open>Outbound connect\<close>

text \<open>
  C1, as the code has it. With no registered peer \<^verbatim>\<open>connectToPeer\<close> returns at once: no
  log entry, no change. With a peer, it is rejected (exactly one log entry is added
  and nothing else changes) when the status is \<open>CONNECTED\<close> or the target is the node's
  own confirmed identity. In every other case, whatever the status (\<open>READY\<close>, but also
  \<open>INITIALIZING\<close>, \<open>CONNECTING\<close> or \<open>ERROR\<close>), it logs the handshake and, if the
  transport returns a connection, enters \<open>CONNECTING\<close> holding that connection; if the
  transport throws, it logs a second entry and the status becomes \<open>READY\<close>.
\<close>

theorem connectToPeer_guard:
  "(peerRef s = None \<longrightarrow> connectToPeer target res ls ls' s = s)
   \<and> (peerRef s \<noteq> None \<and> (status s = CONNECTED \<or> target = peerId s) \<longrightarrow>
        (\<exists>txt ty. connectToPeer target res ls ls' s =
           s\<lparr>logs := logs s @
              [\<lparr>l_id = fst ls, l_message = txt, l_timestamp = snd ls, l_type = ty\<rparr>]\<rparr>)
        \<and> status (connectToPeer target res ls ls' s) = status s
        \<and> connRef (connectToPeer target res ls ls' s) = connRef s)
   \<and> (peerRef s \<noteq> None \<and> status s \<noteq> CONNECTED \<and> target \<noteq> peerId s \<longrightarrow>
        status (connectToPeer target (Returns h) ls ls' s) = CONNECTING
        \<and> connRef (connectToPeer target (Returns h) ls ls' s) = Some (Conn target h)
        \<and> length (logs (connectToPeer target (Returns h) ls ls' s)) = Suc (length (logs s))
        \<and> messages (connectToPeer target (Returns h) ls ls' s) = messages s
        \<and> status (connectToPeer target (Throws err) ls ls' s) = READY
        \<and> connRef (connectToPeer target (Throws err) ls ls' s) = connRef s
        \<and> length (logs (connectToPeer target (Throws err) ls ls' s))
            = Suc (Suc (length (logs s))))"
proof (intro conjI impI)
  assume "peerRef s = None"
  then show "connectToPeer target res ls ls' s = s"
    by (simp add: connectToPeer_def)
next
  assume rej: "peerRef s \<noteq> None \<and> (status s = CONNECTED \<or> target = peerId s)"
  then obtain p where p: "peerRef s = Some p" by auto
  show "\<exists>txt ty. connectToPeer target res ls ls' s =
           s\<lparr>logs := logs s @
              [\<lparr>l_id = fst ls, l_message = txt, l_timestamp = snd ls, l_type = ty\<rparr>]\<rparr>"
  proof (cases "status s = CONNECTED")
    case True
    with p have "connectToPeer target res ls ls' s =
           s\<lparr>logs := logs s @
              [\<lparr>l_id = fst ls,
                l_message = ''Already connected. Terminate current link first.'',
                l_timestamp = snd ls, l_type = Warning\<rparr>]\<rparr>"
      by (simp add: connectToPeer_def addLog_def)
    then show ?thesis by blast
  next
    case False
    with rej p have "connectToPeer target res ls ls' s =
           s\<lparr>logs := logs s @
              [\<lparr>l_id = fst ls,
                l_message = ''Cannot connect to self. Targeting external node required.'',
                l_timestamp = snd ls, l_type = Error\<rparr>]\<rparr>"
      by (simp add: connectToPeer_def addLog_def)
    then show ?thesis by blast
  qed
  from rej p show "status (connectToPeer target res ls ls' s) = status s"
    by (auto simp: connectToPeer_def addLog_def)
  from rej p show "connRef (connectToPeer target res ls ls' s) = connRef s"
    by (auto simp: connectToPeer_def addLog_def)
next
  assume go: "peerRef s \<noteq> None \<and> status s \<noteq> CONNECTED \<and> target \<noteq> peerId s"
  then obtain p where p: "peerRef s = Some p" by auto
  from go p show "status (connectToPeer target (Returns h) ls ls' s) = CONNECTING"
    by (simp add: connectToPeer_def addLog_def setupConnection_def Let_def)
  from go p show "connRef (connectToPeer target (Returns h) ls ls' s) = Some (Conn target h)"
    by (simp add: connectToPeer_def addLog_def setupConnection_def Let_def)
  from go p show "length (logs (connectToPeer target (Returns h) ls ls' s))
      = Suc (length (logs s))"
    by (simp add: connectToPeer_def addLog_def setupConnection_def Let_def)
  from go p show "messages (connectToPeer target (Returns h) ls ls' s) = messages s"
    by (simp add: connectToPeer_def addLog_def setupConnection_def Let_def)
  from go p show "status (connectToPeer target (Throws err) ls ls' s) = READY"
    by (simp add: connectToPeer_def addLog_def Let_def)
  from go p show "connRef (connectToPeer target (Throws err) ls ls' s) = connRef s"
    by (simp add: connectToPeer_def addLog_def Let_def)
  from go p show "length (logs (connectToPeer target (Throws err) ls ls' s))
      = Suc (Suc (length (logs s)))"
    by (simp add: connectToPeer_def addLog_def Let_def)
qed

text \<open>
  The ready node refuses its own identity; the node whose registration failed is not
  \<open>READY\<close>, and connecting from it goes through.
\<close>

theorem connectToPeer_guard_witness:
  "peerRef nodeA_ready \<noteq> None \<and> ''AAA111'' = peerId nodeA_ready
   \<and> status (connectToPeer ''AAA111'' (Returns 3) (''l2'', 12) (''l3'', 12) nodeA_ready) = READY
   \<and> connRef (connectToPeer ''AAA111'' (Returns 3) (''l2'', 12) (''l3'', 12) nodeA_ready) = None
   \<and> peerRef nodeA_failed \<noteq> None \<and> status nodeA_failed \<noteq> CONNECTED
   \<and> ''BBB222'' \<noteq> peerId nodeA_failed
   \<and> status (connectToPeer ''BBB222'' (Returns 3) (''l2'', 12) (''l3'', 12) nodeA_failed)
       = CONNECTING
   \<and> connRef (connectToPeer ''BBB222'' (Returns 3) (''l2'', 12) (''l3'', 12) nodeA_failed)
       = Some (Conn ''BBB222'' 3)
   \<and> status (connectToPeer ''BBB222'' (Throws ''no route'') (''l2'', 12) (''l3'', 12) nodeA_failed)
       = READY"
proof -
  have r: "peerRef nodeA_ready \<noteq> None" "''AAA111'' = peerId nodeA_ready"
    "status nodeA_ready = READY" "connRef nodeA_ready = None"
    by (simp_all add: nodeA_ready_eq)
  have f: "peerRef nodeA_failed \<noteq> None" "status nodeA_failed \<noteq> CONNECTED"
    "''BBB222'' \<noteq> peerId nodeA_failed"
    by (simp_all add: nodeA_failed_facts)
  from r connectToPeer_guard
         [of nodeA_ready "''AAA111''" "Returns 3" "(''l2'', 12)" "(''l3'', 12)" 3 "''no route''"]
  have "status (connectToPeer ''AAA111'' (Returns 3) (''l2'', 12) (''l3'', 12) nodeA_ready) = READY"
    and "connRef (connectToPeer ''AAA111'' (Returns 3) (''l2'', 12) (''l3'', 12) nodeA_ready)
          = None"
    by simp_all
  moreover from f connectToPeer_guard
         [of nodeA_failed "''BBB222''" "Returns 3" "(''l2'', 12)" "(''l3'', 12)" 3 "''no route''"]
  have "status (connectToPeer ''BBB222'' (Returns 3) (''l2'', 12) (''l3'', 12) nodeA_failed)
          = CONNECTING"
    and "connRef (connectToPeer ''BBB222'' (Returns 3) (''l2'', 12) (''l3'', 12) nodeA_failed)
          = Some (Conn ''BBB222'' 3)"
    and "status (connectToPeer ''BBB222'' (Throws ''no route'') (''l2'', 12) (''l3'', 12)
          nodeA_failed) = READY"
    by blast+
  ultimately show ?thesis using r f by blast
qed

text \<open>
  Rejection does not extend to every status other than \<open>READY\<close>: the node whose registration was refused is in \<open>ERROR\<close>,
  not \<open>READY\<close>, and \<^verbatim>\<open>connectToPeer\<close> to another identity is not rejected there; the status
  changes to \<open>CONNECTING\<close> and the new connection is taken.
\<close>

theorem connectToPeer_not_ready_counterexample:
  "status nodeA_failed = ERROR
   \<and> status (connectToPeer ''BBB222'' (Returns 3) (''l2'', 12) (''l3'', 12) nodeA_failed)
       = CONNECTING
   \<and> connRef (connectToPeer ''BBB222'' (Returns 3) (''l2'', 12) (''l3'', 12) nodeA_failed)
       = Some (Conn ''BBB222'' 3)"
  by (simp add: nodeA_failed_facts connectToPeer_def addLog_def setupConnection_def Let_def)

subsection \<open>Remote records are keyed by the receiver\<close>

text \<open>
  C9. A connected sender that sends a text and then edits or deletes its own copy
  (id \<open>m\<close>, generated by the sender) puts on the channel a text payload, which carries
  no id, and an edit or delete payload naming \<open>m\<close>. The receiver appends the remote
  text or file under the id \<open>fst rs\<close> that it generates itself, whatever the payload
  carries; the id \<open>fid\<close> of a file payload occurs only in the acknowledgement sent back.
  So when the receiver's generated id differs from \<open>m\<close> and \<open>m\<close> was not already an id
  of its log, a later edit or delete payload naming \<open>m\<close>, also for a file sent under
  \<open>m\<close>, leaves the receiver's log unchanged.
\<close>

theorem remote_record_keyed_locally:
  assumes "connRef a = Some ca" and "status a = CONNECTED"
    and "m \<notin> set (map m_id (messages s))" and "m \<noteq> fst rs"
  shows "m_id (last (messages (sendMessage content r la (m, t) a))) = m
    \<and> outbox (handleEditMessage m x (sendMessage content r la (m, t) a))
        = outbox a @ [(ca, EText content r), (ca, EEdit m x)]
    \<and> outbox (handleDeleteMessage m (sendMessage content r la (m, t) a))
        = outbox a @ [(ca, EText content r), (ca, EDelete m)]
    \<and> messages (conn_on_data c (EText content r) rs ls url s) = messages s @
         [\<lparr>m_id = fst rs, m_sender = Remote, m_senderId = Some (conn_peer c),
           m_content = content, m_timestamp = snd rs, m_type = KText, m_file = None,
           m_status = None, m_replyTo = r, m_isEdited = None, m_isDeleted = None\<rparr>]
    \<and> outbox (conn_on_data c (EText content r) rs ls url s) = outbox s
    \<and> length (messages (conn_on_data c (EFile fid fobj name sz mime) rs ls url s))
        = Suc (length (messages s))
    \<and> take (length (messages s))
         (messages (conn_on_data c (EFile fid fobj name sz mime) rs ls url s)) = messages s
    \<and> m_id (last (messages (conn_on_data c (EFile fid fobj name sz mime) rs ls url s))) = fst rs
    \<and> outbox (conn_on_data c (EFile fid fobj name sz mime) rs ls url s)
        = outbox s @ [(c, EAck fid)]
    \<and> messages (conn_on_data c (EEdit m x) rs' ls' url'
          (conn_on_data c (EText content r) rs ls url s))
        = messages (conn_on_data c (EText content r) rs ls url s)
    \<and> messages (conn_on_data c (EDelete m) rs' ls' url'
          (conn_on_data c (EText content r) rs ls url s))
        = messages (conn_on_data c (EText content r) rs ls url s)
    \<and> messages (conn_on_data c (EEdit m x) rs' ls' url'
          (conn_on_data c (EFile m fobj name sz mime) rs ls url s))
        = messages (conn_on_data c (EFile m fobj name sz mime) rs ls url s)
    \<and> messages (conn_on_data c (EDelete m) rs' ls' url'
          (conn_on_data c (EFile m fobj name sz mime) rs ls url s))
        = messages (conn_on_data c (EFile m fobj name sz mime) rs ls url s)"
proof -
  have sender: "m_id (last (messages (sendMessage content r la (m, t) a))) = m
    \<and> outbox (handleEditMessage m x (sendMessage content r la (m, t) a))
        = outbox a @ [(ca, EText content r), (ca, EEdit m x)]
    \<and> outbox (handleDeleteMessage m (sendMessage content r la (m, t) a))
        = outbox a @ [(ca, EText content r), (ca, EDelete m)]"
    using assms(1,2)
    by (simp add: sendMessage_def handleEditMessage_def handleDeleteMessage_def)
  have text_in: "messages (conn_on_data c (EText content r) rs ls url s) = messages s @
         [\<lparr>m_id = fst rs, m_sender = Remote, m_senderId = Some (conn_peer c),
           m_content = content, m_timestamp = snd rs, m_type = KText, m_file = None,
           m_status = None, m_replyTo = r, m_isEdited = None, m_isDeleted = None\<rparr>]
    \<and> outbox (conn_on_data c (EText content r) rs ls url s) = outbox s"
    by simp
  have file_in: "length (messages (conn_on_data c (EFile fid fobj name sz mime) rs ls url s))
        = Suc (length (messages s))
    \<and> take (length (messages s))
         (messages (conn_on_data c (EFile fid fobj name sz mime) rs ls url s)) = messages s
    \<and> m_id (last (messages (conn_on_data c (EFile fid fobj name sz mime) rs ls url s))) = fst rs
    \<and> outbox (conn_on_data c (EFile fid fobj name sz mime) rs ls url s)
        = outbox s @ [(c, EAck fid)]"
    by (simp add: addLog_def Let_def)
  have absent_text:
    "m \<notin> set (map m_id (messages (conn_on_data c (EText content r) rs ls url s)))"
    using assms(3,4) by simp
  have absent_file:
    "m \<notin> set (map m_id (messages (conn_on_data c (EFile m fobj name sz mime) rs ls url s)))"
    using assms(3,4) by (simp add: addLog_def Let_def)
  have later: "messages (conn_on_data c (EEdit m x) rs' ls' url' s') = messages s'
      \<and> messages (conn_on_data c (EDelete m) rs' ls' url' s') = messages s'"
    if "m \<notin> set (map m_id (messages s'))" for s'
    using that by (simp add: map_markEdited_absent map_markDeleted_absent)
  from sender text_in file_in later [OF absent_text] later [OF absent_file]
  show ?thesis by blast
qed

theorem remote_record_keyed_locally_witness:
  "connRef nodeA_linked = Some chanB \<and> status nodeA_linked = CONNECTED
   \<and> ''m1'' \<notin> set (map m_id (messages nodeA_ready)) \<and> ''m1'' \<noteq> fst (''r7'', 31::nat)
   \<and> outbox (handleEditMessage ''m1'' ''hullo''
        (sendMessage ''hello'' None (''l5'', 15) (''m1'', 30) nodeA_linked))
       = outbox nodeA_linked @ [(chanB, EText ''hello'' None), (chanB, EEdit ''m1'' ''hullo'')]
   \<and> m_id (last (messages (conn_on_data (Conn ''AAA111'' 4) (EText ''hello'' None)
        (''r7'', 31) (''k1'', 31) ''u'' nodeA_ready))) = ''r7''
   \<and> messages (conn_on_data (Conn ''AAA111'' 4) (EEdit ''m1'' ''hullo'') (''r8'', 32)
        (''k2'', 32) ''u''
        (conn_on_data (Conn ''AAA111'' 4) (EText ''hello'' None) (''r7'', 31) (''k1'', 31) ''u''
          nodeA_ready))
       = messages (conn_on_data (Conn ''AAA111'' 4) (EText ''hello'' None) (''r7'', 31)
           (''k1'', 31) ''u'' nodeA_ready)"
proof -
  have h: "connRef nodeA_linked = Some chanB" "status nodeA_linked = CONNECTED"
    "''m1'' \<notin> set (map m_id (messages nodeA_ready))" "''m1'' \<noteq> fst (''r7'', 31::nat)"
    by (simp_all add: nodeA_linked_eq nodeA_ready_eq)
  note w = remote_record_keyed_locally
             [where a = nodeA_linked and ca = chanB and m = "''m1''" and s = nodeA_ready
                and rs = "(''r7'', 31)" and content = "''hello''" and r = None
                and la = "(''l5'', 15)" and t = 30 and x = "''hullo''"
                and c = "Conn ''AAA111'' 4" and ls = "(''k1'', 31)" and url = "''u''"
                and rs' = "(''r8'', 32)" and ls' = "(''k2'', 32)" and url' = "''u''", OF h]
  have "m_id (last (messages (conn_on_data (Conn ''AAA111'' 4) (EText ''hello'' None)
        (''r7'', 31) (''k1'', 31) ''u'' nodeA_ready))) = ''r7''"
    by simp
  with w h show ?thesis by blast
qed

subsection \<open>A channel error keeps the handle\<close>

text \<open>
  C10. The channel's error callback sets the status to \<open>READY\<close> and clears the
  remote-typing flag but leaves \<^verbatim>\<open>connRef\<close> as it is. Evaluated on the session whose
  outbound channel reported an error without ever opening: the session is \<open>READY\<close> and
  holds the handle; an identity change destroys the peer, which closes open channels
  only, so the handle is still held afterwards and the next inbound offer is closed and
  rejected; a power-off of the same session does release the handle.
\<close>

theorem identity_change_unopened_channel:
  "status nodeA_stalled = READY
   \<and> connRef nodeA_stalled = Some chanOut
   \<and> openConns nodeA_stalled = []
   \<and> connRef (run nodeA_stalled
        [IdentityChange ''CCC333'' (''l5'', 15) (gen ''c'') (gen ''d'') (''l6'', 16)])
       = Some chanOut
   \<and> closedConns (run nodeA_stalled
        [IdentityChange ''CCC333'' (''l5'', 15) (gen ''c'') (gen ''d'') (''l6'', 16),
         PeerConnection (Conn ''DDD444'' 9) (''l7'', 17)]) = [Conn ''DDD444'' 9]
   \<and> connRef (run nodeA_stalled
        [IdentityChange ''CCC333'' (''l5'', 15) (gen ''c'') (gen ''d'') (''l6'', 16),
         PeerConnection (Conn ''DDD444'' 9) (''l7'', 17)]) = Some chanOut
   \<and> connRef (run nodeA_stalled
        [TogglePower (''l5'', 15) (''s1'', 15) (gen ''b'') (gen ''c'') (gen ''d'') (''l6'', 16)])
       = None"
  by (simp add: nodeA_stalled_eq nodeA_ready_eq handler_defs chanOut_def)


end
